theory Spec2Isabelle
  imports Complex_Main "HOL-Library.Multiset"
begin

section \<open>Numeric kernel used by the scene graph service\<close>

text \<open>
  The service (\<open>packages/g/src/services/SceneGraphService.ts\<close>) computes with the
  \<open>vec3\<close>, \<open>quat\<close> and \<open>mat4\<close> types of the third-party library gl-matrix. JavaScript
  numbers are idealised as real numbers; every concrete evaluation below only meets
  values that are exactly representable, or says otherwise. A \<open>mat4\<close> is column-major,
  its sixteen entries in the order of the array indices 0 .. 15.
\<close>

datatype vec3 = Vec3 real real real

datatype quat = Quat real real real real

datatype mat4 = Mat4 real real real real  real real real real
                     real real real real  real real real real

text \<open>\<open>mat4.create()\<close>: the identity matrix.\<close>

definition mat4_create :: mat4 where
  "mat4_create = Mat4 1 0 0 0  0 1 0 0  0 0 1 0  0 0 0 1"

text \<open>\<open>mat4.multiply(out, a, b)\<close>: the product \<open>a * b\<close>.\<close>

definition mat4_multiply :: "mat4 \<Rightarrow> mat4 \<Rightarrow> mat4" where
  "mat4_multiply a b =
    (case a of Mat4 a00 a01 a02 a03 a10 a11 a12 a13 a20 a21 a22 a23 a30 a31 a32 a33 \<Rightarrow>
    (case b of Mat4 b00 b01 b02 b03 b10 b11 b12 b13 b20 b21 b22 b23 b30 b31 b32 b33 \<Rightarrow>
     Mat4 (b00 * a00 + b01 * a10 + b02 * a20 + b03 * a30)
          (b00 * a01 + b01 * a11 + b02 * a21 + b03 * a31)
          (b00 * a02 + b01 * a12 + b02 * a22 + b03 * a32)
          (b00 * a03 + b01 * a13 + b02 * a23 + b03 * a33)
          (b10 * a00 + b11 * a10 + b12 * a20 + b13 * a30)
          (b10 * a01 + b11 * a11 + b12 * a21 + b13 * a31)
          (b10 * a02 + b11 * a12 + b12 * a22 + b13 * a32)
          (b10 * a03 + b11 * a13 + b12 * a23 + b13 * a33)
          (b20 * a00 + b21 * a10 + b22 * a20 + b23 * a30)
          (b20 * a01 + b21 * a11 + b22 * a21 + b23 * a31)
          (b20 * a02 + b21 * a12 + b22 * a22 + b23 * a32)
          (b20 * a03 + b21 * a13 + b22 * a23 + b23 * a33)
          (b30 * a00 + b31 * a10 + b32 * a20 + b33 * a30)
          (b30 * a01 + b31 * a11 + b32 * a21 + b33 * a31)
          (b30 * a02 + b31 * a12 + b32 * a22 + b33 * a32)
          (b30 * a03 + b31 * a13 + b32 * a23 + b33 * a33)))"

text \<open>
  \<open>mat4.invert(out, a)\<close> returns \<open>null\<close> (here \<open>None\<close>) and leaves \<open>out\<close> untouched when
  the determinant is zero.
\<close>

primrec mat4_invert :: "mat4 \<Rightarrow> mat4 option" where
  "mat4_invert (Mat4 a00 a01 a02 a03 a10 a11 a12 a13 a20 a21 a22 a23 a30 a31 a32 a33) =
     (let b00 = a00 * a11 - a01 * a10; b01 = a00 * a12 - a02 * a10;
          b02 = a00 * a13 - a03 * a10; b03 = a01 * a12 - a02 * a11;
          b04 = a01 * a13 - a03 * a11; b05 = a02 * a13 - a03 * a12;
          b06 = a20 * a31 - a21 * a30; b07 = a20 * a32 - a22 * a30;
          b08 = a20 * a33 - a23 * a30; b09 = a21 * a32 - a22 * a31;
          b10 = a21 * a33 - a23 * a31; b11 = a22 * a33 - a23 * a32;
          det = b00 * b11 - b01 * b10 + b02 * b09 + b03 * b08 - b04 * b07 + b05 * b06
      in if det = 0 then None
         else let d = 1 / det in Some (Mat4
          ((a11 * b11 - a12 * b10 + a13 * b09) * d)
          ((a02 * b10 - a01 * b11 - a03 * b09) * d)
          ((a31 * b05 - a32 * b04 + a33 * b03) * d)
          ((a22 * b04 - a21 * b05 - a23 * b03) * d)
          ((a12 * b08 - a10 * b11 - a13 * b07) * d)
          ((a00 * b11 - a02 * b08 + a03 * b07) * d)
          ((a32 * b02 - a30 * b05 - a33 * b01) * d)
          ((a20 * b05 - a22 * b02 + a23 * b01) * d)
          ((a10 * b10 - a11 * b08 + a13 * b06) * d)
          ((a01 * b08 - a00 * b10 - a03 * b06) * d)
          ((a30 * b04 - a31 * b02 + a33 * b00) * d)
          ((a21 * b02 - a20 * b04 - a23 * b00) * d)
          ((a11 * b07 - a10 * b09 - a12 * b06) * d)
          ((a00 * b09 - a01 * b07 + a02 * b06) * d)
          ((a31 * b01 - a30 * b03 - a32 * b00) * d)
          ((a20 * b03 - a21 * b01 + a22 * b00) * d)))"

text \<open>\<open>Math.hypot\<close> of three numbers.\<close>

definition hypot3 :: "real \<Rightarrow> real \<Rightarrow> real \<Rightarrow> real" where
  "hypot3 a b c = sqrt (a * a + b * b + c * c)"

primrec mat4_getTranslation :: "mat4 \<Rightarrow> vec3" where
  "mat4_getTranslation (Mat4 m0 m1 m2 m3 m4 m5 m6 m7 m8 m9 m10 m11 m12 m13 m14 m15) =
     Vec3 m12 m13 m14"

primrec mat4_getScaling :: "mat4 \<Rightarrow> vec3" where
  "mat4_getScaling (Mat4 m0 m1 m2 m3 m4 m5 m6 m7 m8 m9 m10 m11 m12 m13 m14 m15) =
     Vec3 (hypot3 m0 m1 m2) (hypot3 m4 m5 m6) (hypot3 m8 m9 m10)"

text \<open>
  \<open>mat4.getRotation(out, mat)\<close>: the rotation part is divided by the scaling first, then
  the quaternion is read off by the branch with the largest diagonal term.
\<close>

primrec mat4_getRotation :: "mat4 \<Rightarrow> quat" where
  "mat4_getRotation (Mat4 m0 m1 m2 m3 m4 m5 m6 m7 m8 m9 m10 m11 m12 m13 m14 m15) =
     (let is1 = 1 / hypot3 m0 m1 m2; is2 = 1 / hypot3 m4 m5 m6; is3 = 1 / hypot3 m8 m9 m10;
          sm11 = m0 * is1; sm12 = m1 * is2; sm13 = m2 * is3;
          sm21 = m4 * is1; sm22 = m5 * is2; sm23 = m6 * is3;
          sm31 = m8 * is1; sm32 = m9 * is2; sm33 = m10 * is3;
          trace = sm11 + sm22 + sm33
      in if trace > 0 then
           (let S = sqrt (trace + 1) * 2
            in Quat ((sm23 - sm32) / S) ((sm31 - sm13) / S) ((sm12 - sm21) / S) (0.25 * S))
         else if sm11 > sm22 \<and> sm11 > sm33 then
           (let S = sqrt (1 + sm11 - sm22 - sm33) * 2
            in Quat (0.25 * S) ((sm12 + sm21) / S) ((sm31 + sm13) / S) ((sm23 - sm32) / S))
         else if sm22 > sm33 then
           (let S = sqrt (1 + sm22 - sm11 - sm33) * 2
            in Quat ((sm12 + sm21) / S) (0.25 * S) ((sm23 + sm32) / S) ((sm31 - sm13) / S))
         else
           (let S = sqrt (1 + sm33 - sm11 - sm22) * 2
            in Quat ((sm31 + sm13) / S) ((sm23 + sm32) / S) (0.25 * S) ((sm12 - sm21) / S)))"

text \<open>\<open>mat4.fromRotationTranslationScaleOrigin(out, q, v, s, o)\<close>.\<close>

definition mat4_fromRotationTranslationScaleOrigin ::
  "quat \<Rightarrow> vec3 \<Rightarrow> vec3 \<Rightarrow> vec3 \<Rightarrow> mat4" where
  "mat4_fromRotationTranslationScaleOrigin q v s org =
    (case q of Quat x y z w \<Rightarrow> case v of Vec3 v0 v1 v2 \<Rightarrow>
     case s of Vec3 sx sy sz \<Rightarrow> case org of Vec3 ox oy oz \<Rightarrow>
     (let x2 = x + x; y2 = y + y; z2 = z + z;
          xx = x * x2; xy = x * y2; xz = x * z2;
          yy = y * y2; yz = y * z2; zz = z * z2;
          wx = w * x2; wy = w * y2; wz = w * z2;
          out0 = (1 - (yy + zz)) * sx; out1 = (xy + wz) * sx; out2 = (xz - wy) * sx;
          out4 = (xy - wz) * sy; out5 = (1 - (xx + zz)) * sy; out6 = (yz + wx) * sy;
          out8 = (xz + wy) * sz; out9 = (yz - wx) * sz; out10 = (1 - (xx + yy)) * sz
      in Mat4 out0 out1 out2 0  out4 out5 out6 0  out8 out9 out10 0
              (v0 + ox - (out0 * ox + out4 * oy + out8 * oz))
              (v1 + oy - (out1 * ox + out5 * oy + out9 * oz))
              (v2 + oz - (out2 * ox + out6 * oy + out10 * oz))
              1))"

text \<open>\<open>quat.create()\<close> is the identity rotation; \<open>vec3\<close> helpers are componentwise.\<close>

definition quat_create :: quat where
  "quat_create = Quat 0 0 0 1"

primrec vec3_add :: "vec3 \<Rightarrow> vec3 \<Rightarrow> vec3" where
  "vec3_add (Vec3 a0 a1 a2) b = (case b of Vec3 b0 b1 b2 \<Rightarrow> Vec3 (a0 + b0) (a1 + b1) (a2 + b2))"

primrec vec3_multiply :: "vec3 \<Rightarrow> vec3 \<Rightarrow> vec3" where
  "vec3_multiply (Vec3 a0 a1 a2) b =
     (case b of Vec3 b0 b1 b2 \<Rightarrow> Vec3 (a0 * b0) (a1 * b1) (a2 * b2))"

text \<open>\<open>vec3.transformQuat(out, a, q)\<close>.\<close>

primrec vec3_transformQuat :: "vec3 \<Rightarrow> quat \<Rightarrow> vec3" where
  "vec3_transformQuat (Vec3 x y z) q =
     (case q of Quat qx qy qz qw \<Rightarrow>
       (let uvx = qy * z - qz * y; uvy = qz * x - qx * z; uvz = qx * y - qy * x;
            uuvx = qy * uvz - qz * uvy; uuvy = qz * uvx - qx * uvz; uuvz = qx * uvy - qy * uvx;
            w2 = qw * 2
        in Vec3 (x + uvx * w2 + uuvx * 2) (y + uvy * w2 + uuvy * 2) (z + uvz * w2 + uuvz * 2)))"

text \<open>\<open>vec3.transformMat4(out, a, m)\<close>: a zero \<open>w\<close> is replaced by 1 (\<open>w || 1.0\<close>).\<close>

primrec vec3_transformMat4 :: "vec3 \<Rightarrow> mat4 \<Rightarrow> vec3" where
  "vec3_transformMat4 (Vec3 x y z) m =
     (case m of Mat4 m0 m1 m2 m3 m4 m5 m6 m7 m8 m9 m10 m11 m12 m13 m14 m15 \<Rightarrow>
       (let w0 = m3 * x + m7 * y + m11 * z + m15;
            w = (if w0 = 0 then 1 else w0)
        in Vec3 ((m0 * x + m4 * y + m8 * z + m12) / w)
                ((m1 * x + m5 * y + m9 * z + m13) / w)
                ((m2 * x + m6 * y + m10 * z + m14) / w)))"

text \<open>\<open>quat.fromEuler(out, x, y, z)\<close>, angles in degrees.\<close>

definition quat_fromEuler :: "real \<Rightarrow> real \<Rightarrow> real \<Rightarrow> quat" where
  "quat_fromEuler x y z =
     (let halfToRad = 0.5 * pi / 180;
          sx = sin (x * halfToRad); cx = cos (x * halfToRad);
          sy = sin (y * halfToRad); cy = cos (y * halfToRad);
          sz = sin (z * halfToRad); cz = cos (z * halfToRad)
      in Quat (sx * cy * cz - cx * sy * sz) (cx * sy * cz + sx * cy * sz)
              (cx * cy * sz - sx * sy * cz) (cx * cy * cz + sx * sy * sz))"

text \<open>\<open>quat.multiply(out, a, b)\<close> (also \<open>quat.mul\<close>): the Hamilton product \<open>a * b\<close>.\<close>

primrec quat_multiply :: "quat \<Rightarrow> quat \<Rightarrow> quat" where
  "quat_multiply (Quat ax ay az aw) b =
     (case b of Quat bx by bz bw \<Rightarrow>
        Quat (ax * bw + aw * bx + ay * bz - az * by)
             (ay * bw + aw * by + az * bx - ax * bz)
             (az * bw + aw * bz + ax * by - ay * bx)
             (aw * bw - ax * bx - ay * by - az * bz))"

text \<open>\<open>quat.invert(out, a)\<close>: the zero quaternion is mapped to itself.\<close>

primrec quat_invert :: "quat \<Rightarrow> quat" where
  "quat_invert (Quat a0 a1 a2 a3) =
     (let dot = a0 * a0 + a1 * a1 + a2 * a2 + a3 * a3;
          invDot = (if dot = 0 then 0 else 1 / dot)
      in Quat (- a0 * invDot) (- a1 * invDot) (- a2 * invDot) (a3 * invDot))"

text \<open>\<open>quat.normalize(out, a)\<close>: the zero quaternion is left as it is.\<close>

primrec quat_normalize :: "quat \<Rightarrow> quat" where
  "quat_normalize (Quat x y z w) =
     (let len = x * x + y * y + z * z + w * w;
          l = (if len > 0 then 1 / sqrt len else len)
      in Quat (x * l) (y * l) (z * l) (w * l))"

text \<open>The squared length of a quaternion; a unit quaternion has squared length 1.\<close>

primrec quat_sqlen :: "quat \<Rightarrow> real" where
  "quat_sqlen (Quat x y z w) = x * x + y * y + z * z + w * w"

section \<open>Bounding boxes\<close>

text \<open>
  Modelled from the spec: the class \<open>AABB\<close> of \<open>packages/g/src/shapes\<close> and its method
  \<open>setFromTransformedAABB\<close> are not part of the sources at hand. An axis-aligned box is
  given by its minimal and maximal corner, and the box of a transformed box is
  recomputed from the images of its eight corners ("transform all 8 corners /
  recompute min-max").
\<close>

record AABB =
  box_min :: vec3
  box_max :: vec3

primrec vec3_min :: "vec3 \<Rightarrow> vec3 \<Rightarrow> vec3" where
  "vec3_min (Vec3 a0 a1 a2) b =
     (case b of Vec3 b0 b1 b2 \<Rightarrow> Vec3 (min a0 b0) (min a1 b1) (min a2 b2))"

primrec vec3_max :: "vec3 \<Rightarrow> vec3 \<Rightarrow> vec3" where
  "vec3_max (Vec3 a0 a1 a2) b =
     (case b of Vec3 b0 b1 b2 \<Rightarrow> Vec3 (max a0 b0) (max a1 b1) (max a2 b2))"

definition corners :: "AABB \<Rightarrow> vec3 list" where
  "corners b =
     (case box_min b of Vec3 x0 y0 z0 \<Rightarrow> case box_max b of Vec3 x1 y1 z1 \<Rightarrow>
        [Vec3 x0 y0 z0, Vec3 x1 y0 z0, Vec3 x0 y1 z0, Vec3 x1 y1 z0,
         Vec3 x0 y0 z1, Vec3 x1 y0 z1, Vec3 x0 y1 z1, Vec3 x1 y1 z1])"

definition setFromTransformedAABB :: "AABB \<Rightarrow> mat4 \<Rightarrow> AABB" where
  "setFromTransformedAABB b m =
     (let ps = map (\<lambda>p. vec3_transformMat4 p m) (corners b)
      in \<lparr>box_min = foldl vec3_min (hd ps) (tl ps), box_max = foldl vec3_max (hd ps) (tl ps)\<rparr>)"

section \<open>Components and the component store\<close>

text \<open>
  Entities are identified by natural numbers. The component classes \<open>SceneGraphNode\<close>,
  \<open>Transform\<close>, \<open>Sortable\<close>, \<open>Renderable\<close> and \<open>Geometry\<close> are declared outside the
  service; their fields are the ones the service reads and writes. A component an entity
  does not carry is \<open>None\<close> (\<open>getComponent\<close> returns \<open>undefined\<close>).
\<close>

type_synonym Entity = nat

record SceneGraphNode =
  parent :: "Entity option"
  children :: "Entity list"
  frozen :: bool

record Transform =
  localPosition :: vec3
  localRotation :: quat
  localScale :: vec3
  localTransform :: mat4
  position :: vec3
  rotation :: quat
  scaling :: vec3
  worldTransform :: mat4
  origin :: vec3
  dirtyFlag :: bool
  localDirtyFlag :: bool

record Sortable =
  zIndex :: int
  dirty :: bool
  sorted_cache :: "Entity list"

record Renderable =
  aabb :: "AABB option"
  dirty_r :: bool

record Geometry =
  aabb_g :: AABB

text \<open>
  The store holds every component of every entity and the log of the emitted
  \<open>AABBChanged\<close> events (the entity each one carries, oldest first).
\<close>

record Store =
  nodes :: "Entity \<Rightarrow> SceneGraphNode option"
  transforms :: "Entity \<Rightarrow> Transform option"
  sortables :: "Entity \<Rightarrow> Sortable option"
  renderables :: "Entity \<Rightarrow> Renderable option"
  geometries :: "Entity \<Rightarrow> Geometry option"
  emitted :: "Entity list"

text \<open>
  Reading a field of a missing component throws a \<open>TypeError\<close>. A recursion that has
  used up its fuel stands for a call that does not return.
\<close>

datatype err = TypeError | OutOfFuel

definition andThen :: "err + 'a \<Rightarrow> ('a \<Rightarrow> err + 'b) \<Rightarrow> err + 'b" where
  "andThen r f = (case r of Inl e \<Rightarrow> Inl e | Inr x \<Rightarrow> f x)"

definition getNode :: "Store \<Rightarrow> Entity \<Rightarrow> err + SceneGraphNode" where
  "getNode s e = (case nodes s e of None \<Rightarrow> Inl TypeError | Some n \<Rightarrow> Inr n)"

definition getTransform :: "Store \<Rightarrow> Entity \<Rightarrow> err + Transform" where
  "getTransform s e = (case transforms s e of None \<Rightarrow> Inl TypeError | Some t \<Rightarrow> Inr t)"

definition getSortable :: "Store \<Rightarrow> Entity \<Rightarrow> err + Sortable" where
  "getSortable s e = (case sortables s e of None \<Rightarrow> Inl TypeError | Some t \<Rightarrow> Inr t)"

definition putNode :: "Store \<Rightarrow> Entity \<Rightarrow> SceneGraphNode \<Rightarrow> Store" where
  "putNode s e n = s\<lparr>nodes := (nodes s)(e \<mapsto> n)\<rparr>"

definition putTransform :: "Store \<Rightarrow> Entity \<Rightarrow> Transform \<Rightarrow> Store" where
  "putTransform s e t = s\<lparr>transforms := (transforms s)(e \<mapsto> t)\<rparr>"

definition putSortable :: "Store \<Rightarrow> Entity \<Rightarrow> Sortable \<Rightarrow> Store" where
  "putSortable s e t = s\<lparr>sortables := (sortables s)(e \<mapsto> t)\<rparr>"

definition putRenderable :: "Store \<Rightarrow> Entity \<Rightarrow> Renderable \<Rightarrow> Store" where
  "putRenderable s e r = s\<lparr>renderables := (renderables s)(e \<mapsto> r)\<rparr>"

text \<open>
  \<open>array.forEach(f)\<close> on an array that the callback may change: the length is read
  once, then each index below it is visited if it is still inside the array at that
  moment. The array is given by a function that reads it from the current state.
\<close>

fun forEach :: "nat \<Rightarrow> nat \<Rightarrow> ('s \<Rightarrow> Entity list) \<Rightarrow>
    ('s \<Rightarrow> Entity \<Rightarrow> err + 's) \<Rightarrow> 's \<Rightarrow> err + 's" where
  "forEach 0 k arr f s = Inr s"
| "forEach (Suc r) k arr f s =
     (if k < length (arr s) then andThen (f s (arr s ! k)) (forEach r (Suc k) arr f)
      else forEach r (Suc k) arr f s)"

definition getChildren :: "Entity \<Rightarrow> Store \<Rightarrow> Entity list" where
  "getChildren e s = (case nodes s e of None \<Rightarrow> [] | Some n \<Rightarrow> children n)"

section \<open>Transform queries\<close>

text \<open>\<open>getLocalTransform(entity)\<close>; \<open>setLocalDirty(entity, transform, false)\<close> only clears the flag.\<close>

definition getLocalTransform :: "Store \<Rightarrow> Entity \<Rightarrow> err + (Store \<times> mat4)" where
  "getLocalTransform s e =
     andThen (getTransform s e) (\<lambda>t.
       if localDirtyFlag t then
         (let m = mat4_fromRotationTranslationScaleOrigin
                    (localRotation t) (localPosition t) (localScale t) (origin t)
          in Inr (putTransform s e (t\<lparr>localTransform := m, localDirtyFlag := False\<rparr>), m))
       else Inr (s, localTransform t))"

text \<open>\<open>updateTransform(entity, transform)\<close>; \<open>setDirty(entity, transform, false)\<close> only clears the flag.\<close>

definition updateTransform :: "Store \<Rightarrow> Entity \<Rightarrow> err + Store" where
  "updateTransform s e =
     andThen (getTransform s e) (\<lambda>t.
     andThen (if localDirtyFlag t then andThen (getLocalTransform s e) (\<lambda>(s1, m). Inr s1)
              else Inr s) (\<lambda>s1.
       if dirtyFlag t then
         andThen (getNode s1 e) (\<lambda>n.
         andThen (getLocalTransform s1 e) (\<lambda>(s2, l).
         andThen (getTransform s2 e) (\<lambda>t2.
           (case (case parent n of None \<Rightarrow> None | Some p \<Rightarrow> transforms s2 p) of
              None \<Rightarrow> Inr (putTransform s2 e (t2\<lparr>worldTransform := l, dirtyFlag := False\<rparr>))
            | Some pt \<Rightarrow>
                Inr (putTransform s2 e
                  (t2\<lparr>worldTransform := mat4_multiply (worldTransform pt) l,
                      dirtyFlag := False\<rparr>))))))
       else Inr s1))"

text \<open>\<open>getWorldTransform(entity, transform)\<close>, always called with the entity's own transform.\<close>

fun getWorldTransform :: "nat \<Rightarrow> Store \<Rightarrow> Entity \<Rightarrow> err + (Store \<times> mat4)" where
  "getWorldTransform 0 s e = Inl OutOfFuel"
| "getWorldTransform (Suc fuel) s e =
     andThen (getTransform s e) (\<lambda>t.
       if \<not> localDirtyFlag t \<and> \<not> dirtyFlag t then Inr (s, worldTransform t)
       else
         andThen (getNode s e) (\<lambda>n.
         andThen (case parent n of
                    None \<Rightarrow> Inr s
                  | Some p \<Rightarrow> (case transforms s p of
                                None \<Rightarrow> Inr s
                              | Some pt \<Rightarrow> andThen (getWorldTransform fuel s p)
                                             (\<lambda>(s1, m). Inr s1))) (\<lambda>s1.
         andThen (updateTransform s1 e) (\<lambda>s2.
         andThen (getTransform s2 e) (\<lambda>t2. Inr (s2, worldTransform t2))))))"

section \<open>Bounding-box refresh and the dirty-flag protocol\<close>

text \<open>
  \<open>updateRenderableAABB(entity)\<close>: the box is recomputed from the geometry's box and the
  world matrix read through \<open>getWorldTransform\<close>, one \<open>AABBChanged\<close> event is emitted
  and the renderable is marked dirty.
\<close>

definition updateRenderableAABB :: "nat \<Rightarrow> Store \<Rightarrow> Entity \<Rightarrow> err + Store" where
  "updateRenderableAABB fuel s e =
     (case renderables s e of
        None \<Rightarrow> Inl TypeError
      | Some r0 \<Rightarrow>
         (case geometries s e of
            None \<Rightarrow> Inl TypeError
          | Some g \<Rightarrow>
             andThen (getWorldTransform fuel s e) (\<lambda>(s1, m).
               (case renderables s1 e of
                  None \<Rightarrow> Inl TypeError
                | Some r \<Rightarrow>
                   Inr ((putRenderable s1 e
                          (r\<lparr>aabb := Some (setFromTransformedAABB (aabb_g g) m),
                             dirty_r := True\<rparr>))
                        \<lparr>emitted := emitted s1 @ [e]\<rparr>)))))"

text \<open>\<open>dirtifyAABB(entity)\<close>.\<close>

definition dirtifyAABB :: "nat \<Rightarrow> Store \<Rightarrow> Entity \<Rightarrow> err + Store" where
  "dirtifyAABB fuel s e =
     (case renderables s e of None \<Rightarrow> Inr s | Some r \<Rightarrow> updateRenderableAABB fuel s e)"

text \<open>\<open>dirtifyWorldInternal(entity, transform)\<close>, always called with the entity's own transform.\<close>

fun dirtifyWorldInternal :: "nat \<Rightarrow> Store \<Rightarrow> Entity \<Rightarrow> err + Store" where
  "dirtifyWorldInternal 0 s e = Inl OutOfFuel"
| "dirtifyWorldInternal (Suc fuel) s e =
     andThen (getTransform s e) (\<lambda>t.
     andThen
       (if \<not> dirtyFlag t then
          andThen (getNode s e) (\<lambda>n.
            (let s1 = putTransform (putNode s e (n\<lparr>frozen := False\<rparr>)) e (t\<lparr>dirtyFlag := True\<rparr>)
             in forEach (length (children n)) 0 (getChildren e)
                  (\<lambda>s2 c. andThen (getTransform s2 c) (\<lambda>ct.
                     if \<not> dirtyFlag ct then dirtifyWorldInternal fuel s2 c else Inr s2))
                  s1))
        else Inr s)
       (\<lambda>s3. dirtifyAABB (Suc fuel) s3 e))"

text \<open>\<open>unfreezeParentToRoot(entity)\<close>: the loop walks the parent chain.\<close>

fun unfreezeParentToRoot :: "nat \<Rightarrow> Store \<Rightarrow> Entity \<Rightarrow> err + Store" where
  "unfreezeParentToRoot 0 s e = Inl OutOfFuel"
| "unfreezeParentToRoot (Suc fuel) s e =
     (case nodes s e of
        None \<Rightarrow> Inr s
      | Some n \<Rightarrow>
         (let s1 = putNode s e (n\<lparr>frozen := False\<rparr>)
          in case parent n of None \<Rightarrow> Inr s1 | Some p \<Rightarrow> unfreezeParentToRoot fuel s1 p))"

text \<open>\<open>setDirty(entity, transform)\<close> with \<open>value = true\<close>.\<close>

definition setDirty :: "nat \<Rightarrow> Store \<Rightarrow> Entity \<Rightarrow> err + Store" where
  "setDirty fuel s e =
     andThen (getTransform s e) (\<lambda>t.
     andThen (if \<not> dirtyFlag t then unfreezeParentToRoot fuel s e else Inr s) (\<lambda>s1.
       dirtifyWorldInternal fuel s1 e))"

text \<open>\<open>setLocalDirty(entity, transform)\<close> with \<open>value = true\<close>.\<close>

definition setLocalDirty :: "nat \<Rightarrow> Store \<Rightarrow> Entity \<Rightarrow> err + Store" where
  "setLocalDirty fuel s e =
     andThen (getTransform s e) (\<lambda>t.
       if \<not> localDirtyFlag t then
         (let s1 = putTransform s e (t\<lparr>localDirtyFlag := True\<rparr>)
          in if \<not> dirtyFlag t then setDirty fuel s1 e else dirtifyAABB fuel s1 e)
       else Inr s)"

text \<open>The world-space getters decompose the up-to-date world matrix into the cache fields.\<close>

definition getPosition :: "nat \<Rightarrow> Store \<Rightarrow> Entity \<Rightarrow> err + (Store \<times> vec3)" where
  "getPosition fuel s e =
     andThen (getWorldTransform fuel s e) (\<lambda>(s1, m).
     andThen (getTransform s1 e) (\<lambda>t.
       Inr (putTransform s1 e (t\<lparr>position := mat4_getTranslation m\<rparr>), mat4_getTranslation m)))"

definition getRotation :: "nat \<Rightarrow> Store \<Rightarrow> Entity \<Rightarrow> err + (Store \<times> quat)" where
  "getRotation fuel s e =
     andThen (getWorldTransform fuel s e) (\<lambda>(s1, m).
     andThen (getTransform s1 e) (\<lambda>t.
       Inr (putTransform s1 e (t\<lparr>rotation := mat4_getRotation m\<rparr>), mat4_getRotation m)))"

definition getScale :: "nat \<Rightarrow> Store \<Rightarrow> Entity \<Rightarrow> err + (Store \<times> vec3)" where
  "getScale fuel s e =
     andThen (getWorldTransform fuel s e) (\<lambda>(s1, m).
     andThen (getTransform s1 e) (\<lambda>t.
       Inr (putTransform s1 e (t\<lparr>scaling := mat4_getScaling m\<rparr>), mat4_getScaling m)))"

section \<open>Transform mutation\<close>

text \<open>
  A setter that accepts "a vector or three numbers" builds the vector from the numbers
  first; the model takes the vector.
\<close>

text \<open>\<open>applyTransform(entity, transform)\<close>: the world matrix is baked into the local fields.\<close>

definition applyTransform :: "nat \<Rightarrow> Store \<Rightarrow> Entity \<Rightarrow> err + Store" where
  "applyTransform fuel s e =
     andThen (getTransform s e) (\<lambda>t.
       setDirty fuel
         (putTransform s e
            (t\<lparr>localScale := mat4_getScaling (worldTransform t),
               localPosition := mat4_getTranslation (worldTransform t),
               localRotation := mat4_getRotation (worldTransform t)\<rparr>)) e)"

text \<open>
  \<open>matrixTransform(entity, mat)\<close>: the local matrix times \<open>mat\<close> is decomposed into the
  local fields. \<open>mat\<close> is \<open>None\<close> when it is the \<open>null\<close> that \<open>mat4.invert\<close> returned.
\<close>

definition matrixTransform :: "nat \<Rightarrow> Store \<Rightarrow> Entity \<Rightarrow> mat4 option \<Rightarrow> err + Store" where
  "matrixTransform fuel s e mat =
     andThen (getLocalTransform s e) (\<lambda>(s1, l).
       (case mat of
          None \<Rightarrow> Inl TypeError
        | Some m \<Rightarrow>
           andThen (getTransform s1 e) (\<lambda>t.
             (let transformed = mat4_multiply l m
              in setLocalDirty fuel
                   (putTransform s1 e
                      (t\<lparr>localScale := mat4_getScaling transformed,
                         localPosition := mat4_getTranslation transformed,
                         localRotation := mat4_getRotation transformed\<rparr>)) e))))"

text \<open>\<open>setOrigin\<close> does not mark anything dirty.\<close>

definition setOrigin :: "Store \<Rightarrow> Entity \<Rightarrow> vec3 \<Rightarrow> err + Store" where
  "setOrigin s e v = andThen (getTransform s e) (\<lambda>t. Inr (putTransform s e (t\<lparr>origin := v\<rparr>)))"

definition setLocalEulerAngles :: "nat \<Rightarrow> Store \<Rightarrow> Entity \<Rightarrow> vec3 \<Rightarrow> err + Store" where
  "setLocalEulerAngles fuel s e degrees =
     (case degrees of Vec3 dx dy dz \<Rightarrow>
        andThen (getTransform s e) (\<lambda>t.
          setLocalDirty fuel (putTransform s e (t\<lparr>localRotation := quat_fromEuler dx dy dz\<rparr>)) e))"

definition rotateLocal :: "nat \<Rightarrow> Store \<Rightarrow> Entity \<Rightarrow> vec3 \<Rightarrow> err + Store" where
  "rotateLocal fuel s e degrees =
     (case degrees of Vec3 dx dy dz \<Rightarrow>
        andThen (getTransform s e) (\<lambda>t.
          setLocalDirty fuel
            (putTransform s e
               (t\<lparr>localRotation :=
                    quat_normalize (quat_multiply (localRotation t) (quat_fromEuler dx dy dz))\<rparr>))
            e))"

text \<open>
  \<open>rotate\<close> (world space). For a parented entity the source also computes
  \<open>parentInvertRotation = invert(parentRot) * rotation\<close> into a scratch quaternion that is
  not read afterwards; the scratch value has no effect and is not part of the store.
\<close>

definition rotate :: "nat \<Rightarrow> Store \<Rightarrow> Entity \<Rightarrow> vec3 \<Rightarrow> err + Store" where
  "rotate fuel s e degrees =
     (case degrees of Vec3 dx dy dz \<Rightarrow>
        andThen (getNode s e) (\<lambda>n.
          (case parent n of
             None \<Rightarrow> rotateLocal fuel s e degrees
           | Some p \<Rightarrow>
              (let rotation = quat_fromEuler dx dy dz
               in andThen (getRotation fuel s e) (\<lambda>(s1, rot).
                  andThen (getRotation fuel s1 p) (\<lambda>(s2, parentRot).
                  andThen (getTransform s2 e) (\<lambda>t.
                    setLocalDirty fuel
                      (putTransform s2 e
                         (t\<lparr>localRotation := quat_normalize (quat_multiply rotation rot)\<rparr>))
                      e)))))))"

definition setEulerAngles :: "nat \<Rightarrow> Store \<Rightarrow> Entity \<Rightarrow> vec3 \<Rightarrow> err + Store" where
  "setEulerAngles fuel s e degrees =
     (case degrees of Vec3 dx dy dz \<Rightarrow>
        andThen (getNode s e) (\<lambda>n.
          (case parent n of
             None \<Rightarrow> setLocalEulerAngles fuel s e degrees
           | Some p \<Rightarrow>
              andThen (getTransform s e) (\<lambda>t.
                (let s1 = putTransform s e (t\<lparr>localRotation := quat_fromEuler dx dy dz\<rparr>)
                 in andThen (getRotation fuel s1 p) (\<lambda>(s2, parentRotation).
                    andThen (getTransform s2 e) (\<lambda>t2.
                      setLocalDirty fuel
                        (putTransform s2 e
                           (t2\<lparr>localRotation :=
                                 quat_multiply (localRotation t2) (quat_invert parentRotation)\<rparr>))
                        e)))))))"

definition translateLocal :: "nat \<Rightarrow> Store \<Rightarrow> Entity \<Rightarrow> vec3 \<Rightarrow> err + Store" where
  "translateLocal fuel s e translation =
     andThen (getTransform s e) (\<lambda>t.
       setLocalDirty fuel
         (putTransform s e
            (t\<lparr>localPosition :=
                 vec3_add (localPosition t) (vec3_transformQuat translation (localRotation t))\<rparr>))
         e)"

definition setLocalPosition :: "nat \<Rightarrow> Store \<Rightarrow> Entity \<Rightarrow> vec3 \<Rightarrow> err + Store" where
  "setLocalPosition fuel s e pos =
     andThen (getTransform s e) (\<lambda>t.
       setLocalDirty fuel (putTransform s e (t\<lparr>localPosition := pos\<rparr>)) e)"

text \<open>
  \<open>setPosition\<close> (world space): the parent's cached world matrix is inverted; when it has
  no inverse the scratch matrix keeps the copy of the parent's matrix.
\<close>

definition setPosition :: "nat \<Rightarrow> Store \<Rightarrow> Entity \<Rightarrow> vec3 \<Rightarrow> err + Store" where
  "setPosition fuel s e pos =
     andThen (getTransform s e) (\<lambda>t0.
       (let s0 = putTransform s e (t0\<lparr>position := pos\<rparr>)
        in andThen (getNode s0 e) (\<lambda>n.
             (case parent n of
                None \<Rightarrow> setLocalPosition fuel s0 e pos
              | Some p \<Rightarrow>
                 andThen (getTransform s0 p) (\<lambda>pt.
                 andThen (getTransform s0 e) (\<lambda>t.
                   (let parentInvertMatrix =
                          (case mat4_invert (worldTransform pt) of
                             None \<Rightarrow> worldTransform pt | Some i \<Rightarrow> i)
                    in setLocalDirty fuel
                         (putTransform s0 e
                            (t\<lparr>localPosition := vec3_transformMat4 pos parentInvertMatrix\<rparr>))
                         e)))))))"

definition scaleLocal :: "nat \<Rightarrow> Store \<Rightarrow> Entity \<Rightarrow> vec3 \<Rightarrow> err + Store" where
  "scaleLocal fuel s e scl =
     andThen (getTransform s e) (\<lambda>t.
       setLocalDirty fuel (putTransform s e (t\<lparr>localScale := vec3_multiply (localScale t) scl\<rparr>)) e)"

definition setLocalScale :: "nat \<Rightarrow> Store \<Rightarrow> Entity \<Rightarrow> vec3 \<Rightarrow> err + Store" where
  "setLocalScale fuel s e scl =
     andThen (getTransform s e) (\<lambda>t.
       setLocalDirty fuel (putTransform s e (t\<lparr>localScale := scl\<rparr>)) e)"

definition translate :: "nat \<Rightarrow> Store \<Rightarrow> Entity \<Rightarrow> vec3 \<Rightarrow> err + Store" where
  "translate fuel s e translation =
     andThen (getPosition fuel s e) (\<lambda>(s1, p).
     andThen (setPosition fuel s1 e (vec3_add p translation)) (\<lambda>s2.
       setDirty fuel s2 e))"

section \<open>Structural operations\<close>

text \<open>
  \<open>detach(entity)\<close>: for a parented entity the world matrix is baked into the local
  fields, the first occurrence of the entity is spliced out of the parent's children, the
  parent's box is refreshed and the parent reference is cleared last.
\<close>

definition detach :: "nat \<Rightarrow> Store \<Rightarrow> Entity \<Rightarrow> err + Store" where
  "detach fuel s e =
     andThen (getNode s e) (\<lambda>hierarchy.
       (case parent hierarchy of
          None \<Rightarrow> Inr s
        | Some p \<Rightarrow>
           andThen (applyTransform fuel s e) (\<lambda>s1.
             (let s2 = (case nodes s1 p of
                          None \<Rightarrow> s1
                        | Some pn \<Rightarrow> putNode s1 p (pn\<lparr>children := remove1 e (children pn)\<rparr>))
              in andThen (dirtifyAABB fuel s2 p) (\<lambda>s3.
                 andThen (getNode s3 e) (\<lambda>h3. Inr (putNode s3 e (h3\<lparr>parent := None\<rparr>))))))))"

text \<open>
  \<open>array.splice(index, 0, entity)\<close>: a negative index counts from the end, and the
  position is clamped to the array.
\<close>

definition splice_insert :: "int \<Rightarrow> Entity \<Rightarrow> Entity list \<Rightarrow> Entity list" where
  "splice_insert i e xs =
     (let len = int (length xs);
          start = nat (if i < 0 then max (len + i) 0 else min i len)
      in take start xs @ [e] @ drop start xs)"

text \<open>\<open>attach(entity, parentEntity, index?)\<close>; an omitted index is \<open>None\<close>.\<close>

definition attach :: "nat \<Rightarrow> Store \<Rightarrow> Entity \<Rightarrow> Entity \<Rightarrow> int option \<Rightarrow> err + Store" where
  "attach fuel s e p index =
     andThen (case nodes s e of
                None \<Rightarrow> Inr s
              | Some h \<Rightarrow> (case parent h of None \<Rightarrow> Inr s | Some q \<Rightarrow> detach fuel s e)) (\<lambda>s1.
     andThen (getNode s1 e) (\<lambda>hierarchy.
       (let s2 = putNode s1 e (hierarchy\<lparr>parent := Some p\<rparr>)
        in andThen (getNode s2 p) (\<lambda>pn.
             (let s3 = putNode s2 p
                         (pn\<lparr>children := (case index of
                                             None \<Rightarrow> children pn @ [e]
                                           | Some i \<Rightarrow> splice_insert i e (children pn))\<rparr>)
              in andThen (dirtifyAABB fuel s3 p) (\<lambda>s4.
                   (case transforms s4 p of
                      None \<Rightarrow> Inr s4
                    | Some transformParent \<Rightarrow>
                       matrixTransform fuel s4 e (mat4_invert (worldTransform transformParent)))))))))"

text \<open>
  \<open>detachChildren(parent)\<close>: \<open>forEach\<close> runs on the parent's own children array, the one
  \<open>detach\<close> splices.
\<close>

definition detachChildren :: "nat \<Rightarrow> Store \<Rightarrow> Entity \<Rightarrow> err + Store" where
  "detachChildren fuel s p =
     andThen (getNode s p) (\<lambda>pn.
       forEach (length (children pn)) 0 (getChildren p) (\<lambda>s1 c. detach fuel s1 c) s)"

section \<open>Sorting by z-index\<close>

text \<open>The comparator \<open>sortByZIndex(e1, e2)\<close>.\<close>

definition sortByZIndex :: "Store \<Rightarrow> Entity \<Rightarrow> Entity \<Rightarrow> err + int" where
  "sortByZIndex s e1 e2 =
     andThen (getSortable s e1) (\<lambda>sortable1.
     andThen (getSortable s e2) (\<lambda>sortable2.
       Inr (zIndex sortable1 - zIndex sortable2)))"

text \<open>
  \<open>array.sort(compare)\<close> sorts in place and is stable (ECMAScript 2019). The result of
  a stable sort is determined by the comparator; it is computed here by insertion from
  the right, which calls the comparator on every element of an array of two or more
  elements and on none of a shorter one.
\<close>

fun insertBy :: "(Entity \<Rightarrow> Entity \<Rightarrow> err + int) \<Rightarrow> Entity \<Rightarrow> Entity list \<Rightarrow> err + Entity list" where
  "insertBy cmp x [] = Inr [x]"
| "insertBy cmp x (y # ys) =
     andThen (cmp x y) (\<lambda>c.
       if c \<le> 0 then Inr (x # y # ys)
       else andThen (insertBy cmp x ys) (\<lambda>r. Inr (y # r)))"

fun array_sort :: "(Entity \<Rightarrow> Entity \<Rightarrow> err + int) \<Rightarrow> Entity list \<Rightarrow> err + Entity list" where
  "array_sort cmp [] = Inr []"
| "array_sort cmp (x # xs) = andThen (array_sort cmp xs) (insertBy cmp x)"

text \<open>
  \<open>flatten(entities, result)\<close>. The array is either the one-element array \<open>[entity]\<close>
  that \<open>sort\<close> builds, or the children array of a node: \<open>flattenEntity\<close> is the callback
  run on one entity, which pushes it and flattens its children array, sorted in place.
  The state threaded through is the store and the \<open>result\<close> array.
\<close>

fun flattenEntity :: "nat \<Rightarrow> Store \<times> Entity list \<Rightarrow> Entity \<Rightarrow> err + Store \<times> Entity list" where
  "flattenEntity 0 sr e = Inl OutOfFuel"
| "flattenEntity (Suc fuel) sr e =
     (case sr of (s, result) \<Rightarrow>
        andThen (getNode s e) (\<lambda>hierarchy.
          if children hierarchy = [] then Inr (s, result @ [e])
          else
            andThen (array_sort (sortByZIndex s) (children hierarchy)) (\<lambda>cs.
              forEach (length cs) 0 (\<lambda>(s1, r1). getChildren e s1) (flattenEntity fuel)
                (putNode s e (hierarchy\<lparr>children := cs\<rparr>), result @ [e]))))"

text \<open>\<open>sort(entity, force)\<close> returns the cached list (named \<open>sort_graph\<close> here).\<close>

definition sort_graph :: "nat \<Rightarrow> Store \<Rightarrow> Entity \<Rightarrow> bool \<Rightarrow> err + Store \<times> Entity list" where
  "sort_graph fuel s e force =
     andThen (getSortable s e) (\<lambda>sortable.
       if dirty sortable \<or> force then
         andThen (flattenEntity fuel (s, []) e) (\<lambda>(s1, sorted).
         andThen (getSortable s1 e) (\<lambda>sortable1.
           Inr (putSortable s1 e (sortable1\<lparr>sorted_cache := sorted, dirty := False\<rparr>), sorted)))
       else Inr (s, sorted_cache sortable))"

section \<open>Freshly constructed entities\<close>

text \<open>
  Modelled from the spec: entities and their components are created by the
  object-construction layer, which is not part of the sources at hand. A new entity has
  no parent and no children, the identity transform with both dirty flags clear, and
  z-index 0.
\<close>

definition newNode :: SceneGraphNode where
  "newNode = \<lparr>parent = None, children = [], frozen = False\<rparr>"

definition newTransform :: Transform where
  "newTransform = \<lparr>localPosition = Vec3 0 0 0, localRotation = quat_create,
     localScale = Vec3 1 1 1, localTransform = mat4_create, position = Vec3 0 0 0,
     rotation = quat_create, scaling = Vec3 1 1 1, worldTransform = mat4_create,
     origin = Vec3 0 0 0, dirtyFlag = False, localDirtyFlag = False\<rparr>"

definition newSortable :: "int \<Rightarrow> Sortable" where
  "newSortable z = \<lparr>zIndex = z, dirty = True, sorted_cache = []\<rparr>"

definition emptyStore :: Store where
  "emptyStore = \<lparr>nodes = (\<lambda>e. None), transforms = (\<lambda>e. None), sortables = (\<lambda>e. None),
     renderables = (\<lambda>e. None), geometries = (\<lambda>e. None), emitted = []\<rparr>"

text \<open>A group entity: node, transform and sortable, nothing to draw.\<close>

definition addGroup :: "Entity \<Rightarrow> int \<Rightarrow> Store \<Rightarrow> Store" where
  "addGroup e z s = putSortable (putTransform (putNode s e newNode) e newTransform) e (newSortable z)"

text \<open>A shape entity: a group that also carries a renderable and a geometry with the given box.\<close>

definition addShape :: "Entity \<Rightarrow> int \<Rightarrow> AABB \<Rightarrow> Store \<Rightarrow> Store" where
  "addShape e z b s =
     (putRenderable (addGroup e z s) e \<lparr>aabb = None, dirty_r = False\<rparr>)
       \<lparr>geometries := (geometries s)(e \<mapsto> \<lparr>aabb_g = b\<rparr>)\<rparr>"

section \<open>Traversal\<close>

text \<open>
  \<open>visit(entity, visitor)\<close>: depth-first, the children in the order of the children
  array. The visitor is taken as a predicate that does not change the store; the list
  records the entities it was called on.
\<close>

fun visit :: "nat \<Rightarrow> Store \<Rightarrow> Entity \<Rightarrow> (Entity \<Rightarrow> bool) \<Rightarrow> Entity list \<Rightarrow> err + Entity list" where
  "visit 0 s e visitor acc = Inl OutOfFuel"
| "visit (Suc fuel) s e visitor acc =
     (if visitor e then Inr (acc @ [e])
      else andThen (getNode s e) (\<lambda>n.
             foldl (\<lambda>r child. andThen r (visit fuel s child visitor)) (Inr (acc @ [e])) (children n)))"

section \<open>Scene trees and the sorted pre-order\<close>

text \<open>
  A scene tree is the shape of a subgraph: an entity and the trees of its children, in
  the order of its children array. \<open>represents s t\<close> says that the store holds exactly
  this shape below the root of \<open>t\<close>. \<open>sorted_preorder\<close> follows the words of the
  specification: the node first, then its children's lists, the siblings taken in
  ascending z-index, equal z-indices in the order of the tree (\<open>sort_key\<close> is the stable
  sort of the library). \<open>sortChildren z L s\<close> is the store \<open>s\<close> with the children array
  of every entity in \<open>L\<close> sorted in place.
\<close>

datatype tree = Node Entity "tree list"

primrec tree_root :: "tree \<Rightarrow> Entity" where
  "tree_root (Node e ts) = e"

fun labels :: "tree \<Rightarrow> Entity list" where
  "labels (Node e ts) = e # concat (map labels ts)"

fun height :: "tree \<Rightarrow> nat" where
  "height (Node e ts) = Suc (foldr (\<lambda>t h. max (height t) h) ts 0)"

fun represents :: "Store \<Rightarrow> tree \<Rightarrow> bool" where
  "represents s (Node e ts) =
     ((case nodes s e of None \<Rightarrow> False | Some n \<Rightarrow> children n = map tree_root ts)
      \<and> list_all (represents s) ts)"

definition zOf :: "Store \<Rightarrow> Entity \<Rightarrow> int" where
  "zOf s e = (case sortables s e of None \<Rightarrow> 0 | Some t \<Rightarrow> zIndex t)"

function sorted_preorder :: "(Entity \<Rightarrow> int) \<Rightarrow> tree \<Rightarrow> Entity list" where
  "sorted_preorder z (Node e ts) =
     e # concat (map (sorted_preorder z) (sort_key (\<lambda>t. z (tree_root t)) ts))"
  by pat_completeness auto
termination
  by (relation "measure (\<lambda>(z, t). size t)") (auto simp: less_Suc_eq_le size_list_estimation')

definition sortChildren :: "(Entity \<Rightarrow> int) \<Rightarrow> Entity set \<Rightarrow> Store \<Rightarrow> Store" where
  "sortChildren z L s =
     s\<lparr>nodes := (\<lambda>x. if x \<in> L
                       then map_option (\<lambda>n. n\<lparr>children := sort_key z (children n)\<rparr>) (nodes s x)
                       else nodes s x)\<rparr>"


text \<open>A scene with three siblings under entity 0, with z-indices 5, 3 and 5.\<close>

definition zScene :: Store where
  "zScene =
     putNode (putNode (putNode (putNode
       (addGroup 3 5 (addGroup 2 3 (addGroup 1 5 (addGroup 0 0 emptyStore))))
       0 \<lparr>parent = None, children = [1, 2, 3], frozen = False\<rparr>)
       1 \<lparr>parent = Some 0, children = [], frozen = False\<rparr>)
       2 \<lparr>parent = Some 0, children = [], frozen = False\<rparr>)
       3 \<lparr>parent = Some 0, children = [], frozen = False\<rparr>"

definition zTree :: tree where
  "zTree = Node 0 [Node 1 [], Node 2 [], Node 3 []]"

section \<open>Partial correctness and the hierarchy links\<close>

text \<open>
  \<open>links s x\<close> is the structural part of the node of entity \<open>x\<close>: its parent and its
  children, without the \<open>frozen\<close> flag. \<open>ok Q r\<close> says that the result \<open>r\<close>, if the call
  returned normally, satisfies \<open>Q\<close>.
\<close>

definition links :: "Store \<Rightarrow> Entity \<Rightarrow> (Entity option \<times> Entity list) option" where
  "links s x = map_option (\<lambda>n. (parent n, children n)) (nodes s x)"

definition ok :: "('a \<Rightarrow> bool) \<Rightarrow> err + 'a \<Rightarrow> bool" where
  "ok Q r = (case r of Inl e \<Rightarrow> True | Inr x \<Rightarrow> Q x)"

section \<open>Concrete scenes\<close>

text \<open>Enough fuel for every call of the scenes below, and the box of a 2 by 2 square.\<close>

definition fuel5 :: nat where
  "fuel5 = Suc (Suc (Suc (Suc (Suc 0))))"

definition unitBox :: AABB where
  "unitBox = \<lparr>box_min = Vec3 (- 1) (- 1) 0, box_max = Vec3 1 1 0\<rparr>"

lemmas store_defs = andThen_def getNode_def getTransform_def getSortable_def putNode_def
  putTransform_def putSortable_def putRenderable_def getChildren_def newNode_def
  newTransform_def newSortable_def emptyStore_def addGroup_def addShape_def fuel5_def
  unitBox_def Let_def

lemmas numeric_defs = mat4_create_def quat_create_def mat4_multiply_def
  mat4_fromRotationTranslationScaleOrigin_def hypot3_def setFromTransformedAABB_def
  corners_def quat_fromEuler_def

lemmas service_defs = getLocalTransform_def updateTransform_def updateRenderableAABB_def
  dirtifyAABB_def setDirty_def setLocalDirty_def getPosition_def getRotation_def
  getScale_def applyTransform_def matrixTransform_def detach_def attach_def
  detachChildren_def setLocalPosition_def setLocalScale_def setLocalEulerAngles_def
  setEulerAngles_def rotate_def rotateLocal_def

section \<open>World matrix against parent and local matrix\<close>

text \<open>
  Claim C1 says that after any sequence of mutations \<open>getWorldTransform(n)\<close> equals
  \<open>getWorldTransform(parent(n)) * getLocalTransform(n)\<close>, or \<open>getLocalTransform(n)\<close> for
  a root. The scene: a shape (entity 1, with a renderable) is attached to a group
  (entity 0), the group is moved to (1, 0, 0), and the shape is detached. \<open>detach\<close> runs
  the dirty cascade, which refreshes the shape's box and so its world matrix, while the
  shape still has its parent, and clears the parent afterwards. The shape ends as a root
  whose world matrix is the translation by (1, 0, 0) and whose local matrix is the
  identity.
\<close>

theorem detach_root_world_not_local:
  "andThen (attach fuel5 (addShape 1 0 unitBox (addGroup 0 0 emptyStore)) 1 0 None) (\<lambda>s.
   andThen (setLocalPosition fuel5 s 0 (Vec3 1 0 0)) (\<lambda>s.
   andThen (detach fuel5 s 1) (\<lambda>s.
   andThen (getNode s 1) (\<lambda>n.
   andThen (getWorldTransform fuel5 s 1) (\<lambda>(s, w).
   andThen (getLocalTransform s 1) (\<lambda>(s, l). Inr (parent n, w, l)))))))
   = Inr (None, Mat4 1 0 0 0  0 1 0 0  0 0 1 0  1 0 0 1, Mat4 1 0 0 0  0 1 0 0  0 0 1 0  0 0 0 1)"
  by (simp add: store_defs numeric_defs service_defs)

section \<open>The cached-matrix invariant\<close>

text \<open>
  Claim C3 says that after every operation a transform whose \<open>localDirtyFlag\<close> is false
  has a \<open>localTransform\<close> equal to the composition of its local rotation, position, scale
  and origin. The scene: a group (entity 1) is attached to a group (entity 0), the parent
  is moved to (1, 0, 0), the child's world matrix is read, and the child is detached.
  \<open>applyTransform\<close> writes the local fields and calls \<open>setDirty\<close>, not \<open>setLocalDirty\<close>:
  the local flag stays clear, the local position is (1, 0, 0), and the cached local
  matrix is still the identity, not the composition of the fields.
\<close>

theorem detach_local_matrix_stale:
  "andThen (attach fuel5 (addGroup 1 0 (addGroup 0 0 emptyStore)) 1 0 None) (\<lambda>s.
   andThen (setLocalPosition fuel5 s 0 (Vec3 1 0 0)) (\<lambda>s.
   andThen (getWorldTransform fuel5 s 1) (\<lambda>(s, m).
   andThen (detach fuel5 s 1) (\<lambda>s.
   andThen (getTransform s 1) (\<lambda>t.
     Inr (localDirtyFlag t, localPosition t, localTransform t,
          mat4_fromRotationTranslationScaleOrigin
            (localRotation t) (localPosition t) (localScale t) (origin t)))))))
   = Inr (False, Vec3 1 0 0, Mat4 1 0 0 0  0 1 0 0  0 0 1 0  0 0 0 1,
          Mat4 1 0 0 0  0 1 0 0  0 0 1 0  1 0 0 1)"
  by (simp add: store_defs numeric_defs service_defs)

section \<open>Detaching all children\<close>

text \<open>
  Claim C4 says that \<open>detachChildren(parent)\<close> detaches every child, iterating over a
  snapshot of the children list. The scene: entities 1 and 2 are attached to entity 0 and
  \<open>detachChildren\<close> is called on entity 0. \<open>forEach\<close> runs on the children array itself;
  detaching entity 1 shifts entity 2 to index 0, index 1 is then outside the array, and
  entity 2 stays a child of entity 0.
\<close>

theorem detachChildren_skips_child:
  "andThen (attach fuel5 (addGroup 2 0 (addGroup 1 0 (addGroup 0 0 emptyStore))) 1 0 None) (\<lambda>s.
   andThen (attach fuel5 s 2 0 None) (\<lambda>s.
   andThen (detachChildren fuel5 s 0) (\<lambda>s.
   andThen (getNode s 1) (\<lambda>n1.
   andThen (getNode s 2) (\<lambda>n2. Inr (getChildren 0 s, parent n1, parent n2))))))
   = Inr ([2], None, Some 0)"
  by (simp add: store_defs numeric_defs service_defs)

section \<open>Reparenting and the world position\<close>

text \<open>
  Claim C2 says that \<open>attach(n, newParent)\<close> keeps the world position of \<open>n\<close>, also
  when the new parent is rotated. The scene: entity 1 is a root at (1, 0, 0); entity 0
  is a root turned by 180 degrees about the z axis, and its world matrix has been read,
  so the cached matrix is the current one. \<open>matrixTransform\<close> multiplies the local matrix
  by the inverse parent matrix on the right, not on the left: the local position stays
  (1, 0, 0), and under the rotated parent the world position becomes (-1, 0, 0). The
  result lists the parent's world matrix and the child's world position before and after
  \<open>attach\<close>.
\<close>

theorem attach_moves_world_position:
  "andThen (setLocalPosition fuel5 (addGroup 1 0 (addGroup 0 0 emptyStore)) 1 (Vec3 1 0 0)) (\<lambda>s.
   andThen (setLocalEulerAngles fuel5 s 0 (Vec3 0 0 180)) (\<lambda>s.
   andThen (getWorldTransform fuel5 s 0) (\<lambda>(s, pw).
   andThen (getPosition fuel5 s 1) (\<lambda>(s, p0).
   andThen (attach fuel5 s 1 0 None) (\<lambda>s.
   andThen (getPosition fuel5 s 1) (\<lambda>(s, p1). Inr (pw, p0, p1)))))))
   = Inr (Mat4 (- 1) 0 0 0  0 (- 1) 0 0  0 0 1 0  0 0 0 1, Vec3 1 0 0, Vec3 (- 1) 0 0)"
  by (simp add: store_defs numeric_defs service_defs)

section \<open>Unit quaternions\<close>

text \<open>
  Claim C6 says that after \<open>rotate\<close>, \<open>rotateLocal\<close>, \<open>setEulerAngles\<close> and
  \<open>setLocalEulerAngles\<close> the stored local rotation is a unit quaternion, each of them
  renormalising after composition. \<open>setEulerAngles\<close> and \<open>setLocalEulerAngles\<close> do not
  call \<open>quat.normalize\<close>. The scene: entity 1 is a child of entity 0, which is mirrored by
  the local scale (-1, 1, 1); \<open>setEulerAngles(1, (0, 0, 0))\<close> multiplies by the inverse of
  the rotation read off the parent's world matrix, which is not a unit quaternion, and
  stores a local rotation of squared length 2.
\<close>

theorem setEulerAngles_not_unit:
  "andThen (attach fuel5 (addGroup 1 0 (addGroup 0 0 emptyStore)) 1 0 None) (\<lambda>s.
   andThen (setLocalScale fuel5 s 0 (Vec3 (- 1) 1 1)) (\<lambda>s.
   andThen (setEulerAngles fuel5 s 1 (Vec3 0 0 0)) (\<lambda>s.
   andThen (getTransform s 1) (\<lambda>t. Inr (localRotation t, quat_sqlen (localRotation t))))))
   = Inr (Quat 0 0 0 (sqrt 2), 2)"
  by (simp add: store_defs numeric_defs service_defs)

section \<open>World-space rotation under a rotated parent\<close>

text \<open>
  The scene of the next lemmas: entity 1 is a child of entity 0, and entity 0 is turned
  by 180 degrees about the z axis. The requested Euler angles are (90, 90, 0), the
  quaternion (1/2, 1/2, -1/2, 1/2).
\<close>

lemma setEulerAngles_rotated_parent:
  "andThen (attach fuel5 (addGroup 1 0 (addGroup 0 0 emptyStore)) 1 0 None) (\<lambda>s.
   andThen (setLocalEulerAngles fuel5 s 0 (Vec3 0 0 180)) (\<lambda>s.
   andThen (setEulerAngles fuel5 s 1 (Vec3 90 90 0)) (\<lambda>s.
   andThen (getRotation fuel5 s 1) (\<lambda>(s, r). Inr (quat_fromEuler 90 90 0, r)))))
   = Inr (Quat (1 / 2) (1 / 2) (- (1 / 2)) (1 / 2), Quat (1 / 2) (1 / 2) (1 / 2) (- (1 / 2)))"
  by (simp add: store_defs numeric_defs service_defs sin_45 cos_45)

lemma rotate_rotated_parent:
  "andThen (attach fuel5 (addGroup 1 0 (addGroup 0 0 emptyStore)) 1 0 None) (\<lambda>s.
   andThen (setLocalEulerAngles fuel5 s 0 (Vec3 0 0 180)) (\<lambda>s.
   andThen (getRotation fuel5 s 1) (\<lambda>(s, r0).
   andThen (rotate fuel5 s 1 (Vec3 90 90 0)) (\<lambda>s.
   andThen (getRotation fuel5 s 1) (\<lambda>(s, r).
     Inr (r0, quat_multiply (quat_fromEuler 90 90 0) r0, r))))))
   = Inr (Quat 0 0 1 0, Quat (1 / 2) (- (1 / 2)) (1 / 2) (1 / 2),
          Quat (1 / 2) (1 / 2) (1 / 2) (- (1 / 2)))"
  by (simp add: store_defs numeric_defs service_defs sin_45 cos_45)

text \<open>
  Claim C7 says that for a parented entity \<open>getRotation\<close> returns the requested Euler
  rotation after \<open>setEulerAngles\<close>, and the requested rotation composed with the previous
  world rotation after \<open>rotate\<close>, for any parent rotation. Under the parent turned by 180
  degrees about z, \<open>setEulerAngles(1, (90, 90, 0))\<close> leaves the world rotation
  (1/2, 1/2, 1/2, -1/2), which is neither the requested quaternion nor its negative
  (\<open>setEulerAngles\<close> multiplies by the inverse parent rotation on the right); and
  \<open>rotate(1, (90, 90, 0))\<close> leaves the same world rotation, which is neither the requested
  rotation times the previous world rotation (1/2, -1/2, 1/2, 1/2) nor its negative
  (\<open>rotate\<close> computes the inverse parent rotation and does not use it).
\<close>

theorem world_rotation_ignores_parent:
  "andThen (attach fuel5 (addGroup 1 0 (addGroup 0 0 emptyStore)) 1 0 None) (\<lambda>s.
   andThen (setLocalEulerAngles fuel5 s 0 (Vec3 0 0 180)) (\<lambda>s.
   andThen (setEulerAngles fuel5 s 1 (Vec3 90 90 0)) (\<lambda>s.
   andThen (getRotation fuel5 s 1) (\<lambda>(s, r). Inr (quat_fromEuler 90 90 0, r)))))
   = Inr (Quat (1 / 2) (1 / 2) (- (1 / 2)) (1 / 2), Quat (1 / 2) (1 / 2) (1 / 2) (- (1 / 2)))
   \<and>
   andThen (attach fuel5 (addGroup 1 0 (addGroup 0 0 emptyStore)) 1 0 None) (\<lambda>s.
   andThen (setLocalEulerAngles fuel5 s 0 (Vec3 0 0 180)) (\<lambda>s.
   andThen (getRotation fuel5 s 1) (\<lambda>(s, r0).
   andThen (rotate fuel5 s 1 (Vec3 90 90 0)) (\<lambda>s.
   andThen (getRotation fuel5 s 1) (\<lambda>(s, r).
     Inr (r0, quat_multiply (quat_fromEuler 90 90 0) r0, r))))))
   = Inr (Quat 0 0 1 0, Quat (1 / 2) (- (1 / 2)) (1 / 2) (1 / 2),
          Quat (1 / 2) (1 / 2) (1 / 2) (- (1 / 2)))"
  using setEulerAngles_rotated_parent rotate_rotated_parent by (rule conjI)

section \<open>Operations that keep the hierarchy links\<close>

lemma ok_Inr [simp]: "ok Q (Inr x) = Q x"
  by (simp add: ok_def)
lemma ok_Inl [simp]: "ok Q (Inl e)"
  by (simp add: ok_def)
lemma ok_andThen [simp]: "ok Q (andThen r f) = ok (\<lambda>x. ok Q (f x)) r"
  by (cases r) (simp_all add: ok_def andThen_def)
lemma ok_mono: "ok P r \<Longrightarrow> (\<And>x. P x \<Longrightarrow> Q x) \<Longrightarrow> ok Q r"
  by (cases r) (simp_all add: ok_def)
lemma okD: "ok Q r \<Longrightarrow> r = Inr x \<Longrightarrow> Q x"
  by (simp add: ok_def)
lemma ok_getTransform [simp]: "ok Q (getTransform s e) = (\<forall>t. transforms s e = Some t \<longrightarrow> Q t)"
  by (simp add: getTransform_def split: option.splits)
lemma ok_getNode [simp]: "ok Q (getNode s e) = (\<forall>t. nodes s e = Some t \<longrightarrow> Q t)"
  by (simp add: getNode_def split: option.splits)

lemma nodes_putTransform [simp]: "nodes (putTransform s e t) = nodes s"
  by (simp add: putTransform_def)
lemma nodes_putRenderable [simp]: "nodes (putRenderable s e t) = nodes s"
  by (simp add: putRenderable_def)

lemma getLocalTransform_nodes: "ok (\<lambda>p. nodes (fst p) = nodes s) (getLocalTransform s e)"
  by (simp add: getLocalTransform_def Let_def)

lemma updateTransform_nodes: "ok (\<lambda>s'. nodes s' = nodes s) (updateTransform s e)"
proof -
  show ?thesis
    unfolding updateTransform_def
    by (auto intro!: ok_mono[OF getLocalTransform_nodes] split: option.splits)
qed

lemma getWorldTransform_nodes: "ok (\<lambda>p. nodes (fst p) = nodes s) (getWorldTransform fuel s e)"
proof (induction fuel arbitrary: s e)
  case 0
  then show ?case by simp
next
  case (Suc fuel)
  show ?case
    by (auto intro!: ok_mono[OF Suc.IH] ok_mono[OF updateTransform_nodes] split: option.splits)
qed

lemma updateRenderableAABB_nodes: "ok (\<lambda>s'. nodes s' = nodes s) (updateRenderableAABB fuel s e)"
proof -
  show ?thesis
    unfolding updateRenderableAABB_def
    by (auto intro!: ok_mono[OF getWorldTransform_nodes] split: option.splits)
qed

lemma dirtifyAABB_nodes: "ok (\<lambda>s'. nodes s' = nodes s) (dirtifyAABB fuel s e)"
proof -
  show ?thesis
    unfolding dirtifyAABB_def
    by (auto intro!: ok_mono[OF updateRenderableAABB_nodes] split: option.splits)
qed

lemma forEach_invariant:
  assumes "\<And>s x. P s \<Longrightarrow> ok P (f s x)"
  shows "P s \<Longrightarrow> ok P (forEach r k arr f s)"
proof (induction r arbitrary: k s)
  case 0
  then show ?case by simp
next
  case (Suc r)
  show ?case
    using Suc.prems assms[OF Suc.prems, of "arr s ! k"]
    by (auto intro: Suc.IH elim!: ok_mono)
qed

lemma links_putNode_frozen: "nodes s e = Some n \<Longrightarrow> links (putNode s e (n\<lparr>frozen := b\<rparr>)) = links s"
  by (auto simp: links_def putNode_def fun_eq_iff)

lemma links_putTransform [simp]: "links (putTransform s e t) = links s"
  by (auto simp: links_def putTransform_def fun_eq_iff)

lemma links_nodes: "nodes s' = nodes s \<Longrightarrow> links s' = links s"
  by (auto simp: links_def fun_eq_iff)

lemma dirtifyAABB_links: "ok (\<lambda>s'. links s' = links s) (dirtifyAABB fuel s e)"
  by (rule ok_mono[OF dirtifyAABB_nodes]) (rule links_nodes)

lemma getLocalTransform_links: "ok (\<lambda>p. links (fst p) = links s) (getLocalTransform s e)"
  by (rule ok_mono[OF getLocalTransform_nodes]) (rule links_nodes)

lemma dirtifyWorldInternal_links: "ok (\<lambda>s'. links s' = links s) (dirtifyWorldInternal fuel s e)"
proof (induction fuel arbitrary: s e)
  case 0
  then show ?case by simp
next
  case (Suc fuel)
  have step: "ok (\<lambda>x. links x = links s) (andThen (getTransform s2 c) (\<lambda>ct.
                     if \<not> dirtyFlag ct then dirtifyWorldInternal fuel s2 c else Inr s2))"
    if "links s2 = links s" for s2 c
    using that by (auto intro!: ok_mono[OF Suc.IH])
  have loop: "ok (\<lambda>x. links x = links s) (forEach r 0 (getChildren e) (\<lambda>s2 c. andThen (getTransform s2 c) (\<lambda>ct.
                     if \<not> dirtyFlag ct then dirtifyWorldInternal fuel s2 c else Inr s2)) s1)"
    if "links s1 = links s" for s1 r
    using that by (intro forEach_invariant[where P="\<lambda>x. links x = links s"] step)
  show ?case
    by (auto simp: Let_def links_putNode_frozen intro!: ok_mono[OF loop] ok_mono[OF dirtifyAABB_links])
qed

lemma unfreezeParentToRoot_links: "ok (\<lambda>s'. links s' = links s) (unfreezeParentToRoot fuel s e)"
proof (induction fuel arbitrary: s e)
  case 0
  then show ?case by simp
next
  case (Suc fuel)
  show ?case
    by (auto simp: Let_def links_putNode_frozen intro!: ok_mono[OF Suc.IH] split: option.splits)
qed

lemma setDirty_links: "ok (\<lambda>s'. links s' = links s) (setDirty fuel s e)"
proof -
  show ?thesis
    unfolding setDirty_def
    by (auto intro!: ok_mono[OF unfreezeParentToRoot_links] ok_mono[OF dirtifyWorldInternal_links])
qed

lemma setLocalDirty_links: "ok (\<lambda>s'. links s' = links s) (setLocalDirty fuel s e)"
proof -
  show ?thesis
    unfolding setLocalDirty_def
    by (auto simp: Let_def intro!: ok_mono[OF setDirty_links] ok_mono[OF dirtifyAABB_links])
qed

lemma matrixTransform_links: "ok (\<lambda>s'. links s' = links s) (matrixTransform fuel s e mat)"
proof -
  show ?thesis
    unfolding matrixTransform_def
    by (auto simp: Let_def intro!: ok_mono[OF getLocalTransform_links] ok_mono[OF setLocalDirty_links] split: option.splits)
qed


lemma links_SomeD:
  "links s e = Some (p, cs) \<Longrightarrow> \<exists>h. nodes s e = Some h \<and> parent h = p \<and> children h = cs"
  by (auto simp: links_def)

lemma attach_self_ok:
  "ok (\<lambda>s'. \<exists>h. nodes s' e = Some h \<and> parent h = Some e \<and> e \<in> set (children h)) (attach fuel s e e index)"
proof -
  have fin: "ok (\<lambda>s'. links s' e = links s3 e)
           (andThen (dirtifyAABB fuel s3 e) (\<lambda>s4.
                   (case transforms s4 e of
                      None \<Rightarrow> Inr s4
                    | Some transformParent \<Rightarrow>
                       matrixTransform fuel s4 e (mat4_invert (worldTransform transformParent)))))"
    for s3
    by (auto intro!: ok_mono[OF dirtifyAABB_links] ok_mono[OF matrixTransform_links]
        split: option.splits)
  have ins: "e \<in> set (case index of None \<Rightarrow> cs @ [e] | Some i \<Rightarrow> splice_insert i e cs)" for cs
    by (cases index) (simp_all add: splice_insert_def Let_def)
  have fin2: "ok (\<lambda>s'. \<exists>h. nodes s' e = Some h \<and> parent h = Some e \<and> e \<in> set (children h))
           (andThen (dirtifyAABB fuel s3 e) (\<lambda>s4.
                   (case transforms s4 e of
                      None \<Rightarrow> Inr s4
                    | Some transformParent \<Rightarrow>
                       matrixTransform fuel s4 e (mat4_invert (worldTransform transformParent)))))"
    if a: "links s3 e = Some (Some e, cs)" "e \<in> set cs" for s3 cs
  proof (rule ok_mono[OF fin])
    fix x assume "links x e = links s3 e"
    with a have "links x e = Some (Some e, cs)" by simp
    from links_SomeD[OF this] a(2)
    show "\<exists>h. nodes x e = Some h \<and> parent h = Some e \<and> e \<in> set (children h)" by auto
  qed
  show ?thesis
    unfolding attach_def
  proof (simp add: Let_def, rule ok_mono[where P="\<lambda>x. True"],
      simp add: ok_def split: sum.splits, clarsimp)
    fix x t ta
    assume "nodes x e = Some t" and ta: "nodes (putNode x e (t\<lparr>parent := Some e\<rparr>)) e = Some ta"
    from ta have p: "parent ta = Some e" by (auto simp: putNode_def)
    have l: "links (putNode (putNode x e (t\<lparr>parent := Some e\<rparr>)) e
                (ta\<lparr>children := case index of None \<Rightarrow> children ta @ [e]
                      | Some i \<Rightarrow> splice_insert i e (children ta)\<rparr>)) e
         = Some (Some e, case index of None \<Rightarrow> children ta @ [e]
                      | Some i \<Rightarrow> splice_insert i e (children ta))"
      using p by (simp add: links_def putNode_def)
    show "ok (\<lambda>x. ok (\<lambda>s'. \<exists>h. nodes s' e = Some h \<and> parent h = Some e \<and> e \<in> set (children h))
                   (case transforms x e of None \<Rightarrow> Inr x
                    | Some transformParent \<Rightarrow>
                        matrixTransform fuel x e (mat4_invert (worldTransform transformParent))))
           (dirtifyAABB fuel
             (putNode (putNode x e (t\<lparr>parent := Some e\<rparr>)) e
               (ta\<lparr>children := case index of None \<Rightarrow> children ta @ [e]
                     | Some i \<Rightarrow> splice_insert i e (children ta)\<rparr>))
             e)"
      by (rule fin2[unfolded ok_andThen, OF l ins])
  qed
qed

section \<open>Attaching a node to itself\<close>

text \<open>
  A node that carries a transform with clear dirty flags and is attached to itself makes
  \<open>unfreezeParentToRoot\<close> follow the parent link from the node to itself for ever: no
  amount of fuel lets the call return.
\<close>

lemma unfreezeParentToRoot_self_parent:
  "(case nodes s e of None \<Rightarrow> False | Some n \<Rightarrow> parent n = Some e)
   \<Longrightarrow> unfreezeParentToRoot fuel s e = Inl OutOfFuel"
  by (induction fuel arbitrary: s) (auto simp: putNode_def Let_def split: option.splits)

lemma attach_self_clean_group_diverges:
  "attach fuel (addGroup 1 0 emptyStore) 1 1 None = Inl OutOfFuel"
  by (simp add: store_defs numeric_defs service_defs unfreezeParentToRoot_self_parent)

text \<open>
  Claim C5 says that \<open>attach(node, newParent)\<close> is a silent no-op when
  \<open>node === newParent\<close>. The source has no such check. Counterexample: entity 1 carries
  only a scene graph node; \<open>attach(1, 1)\<close> returns a store that is not the one it was
  given.
\<close>

theorem attach_self_not_noop:
  "attach fuel5 (putNode emptyStore 1 newNode) 1 1 None \<noteq> Inr (putNode emptyStore 1 newNode)"
proof
  assume a: "attach fuel5 (putNode emptyStore 1 newNode) 1 1 None = Inr (putNode emptyStore 1 newNode)"
  have "andThen (attach fuel5 (putNode emptyStore 1 newNode) 1 1 None) (\<lambda>s. Inr (nodes s 1))
        = Inr (Some \<lparr>parent = Some 1, children = [1], frozen = False\<rparr>)"
    by (simp add: store_defs numeric_defs service_defs)
  with a show False
    by (simp add: store_defs)
qed

text \<open>
  Claim C5 as amended: \<open>attach(node, node)\<close> is not checked; whenever the call returns,
  the node is its own parent and occurs in its own children list.
\<close>

theorem attach_self_links:
  "attach fuel s e e index = Inr s'
   \<Longrightarrow> \<exists>h. nodes s' e = Some h \<and> parent h = Some e \<and> e \<in> set (children h)"
  using okD[OF attach_self_ok] .

theorem attach_self_links_witness:
  "attach fuel5 (putNode emptyStore 1 newNode) 1 1 None
     = Inr (putNode emptyStore 1 \<lparr>parent = Some 1, children = [1], frozen = False\<rparr>)
   \<and> map_option parent (nodes (putNode emptyStore 1 \<lparr>parent = Some 1, children = [1], frozen = False\<rparr>) 1)
     = Some (Some 1)"
proof -
  have a: "attach fuel5 (putNode emptyStore 1 newNode) 1 1 None
     = Inr (putNode emptyStore 1 \<lparr>parent = Some 1, children = [1], frozen = False\<rparr>)"
    by (simp add: store_defs numeric_defs service_defs)
  from attach_self_links[OF a] a show ?thesis by auto
qed

section \<open>Scaling a shape\<close>

text \<open>
  Claim C9: a root node without children carries a renderable and a geometry whose box is
  [(-1, -1), (1, 1)] (z = 0); its local position, rotation and origin are the identity
  ones and both dirty flags are clear. Then \<open>setLocalScale(node, (2, 2, 1))\<close> returns,
  the node's box is [(-2, -2), (2, 2)], and exactly one event, for that node, has been
  emitted.
\<close>

theorem setLocalScale_refreshes_box:
  assumes "nodes s e = Some n" and "parent n = None" and "children n = []"
    and "transforms s e = Some t" and "localPosition t = Vec3 0 0 0"
    and "localRotation t = Quat 0 0 0 1" and "origin t = Vec3 0 0 0"
    and "\<not> localDirtyFlag t" and "\<not> dirtyFlag t"
    and "renderables s e = Some r" and "geometries s e = Some g" and "aabb_g g = unitBox"
  shows "\<exists>s'. setLocalScale (Suc fuel) s e (Vec3 2 2 1) = Inr s'
           \<and> map_option aabb (renderables s' e)
               = Some (Some \<lparr>box_min = Vec3 (- 2) (- 2) 0, box_max = Vec3 2 2 0\<rparr>)
           \<and> emitted s' = emitted s @ [e]"
  using assms by (simp add: store_defs numeric_defs service_defs)

theorem setLocalScale_refreshes_box_witness:
  "\<exists>s'. setLocalScale (Suc 0) (addShape 1 0 unitBox emptyStore) 1 (Vec3 2 2 1) = Inr s'
         \<and> map_option aabb (renderables s' 1)
             = Some (Some \<lparr>box_min = Vec3 (- 2) (- 2) 0, box_max = Vec3 2 2 0\<rparr>)
         \<and> emitted s' = emitted (addShape 1 0 unitBox emptyStore) @ [1]"
  by (rule setLocalScale_refreshes_box[where n = newNode and t = newTransform
        and r = "\<lparr>aabb = None, dirty_r = False\<rparr>" and g = "\<lparr>aabb_g = unitBox\<rparr>"])
     (simp_all add: store_defs numeric_defs)

section \<open>The comparator sort is the stable sort by z-index\<close>

lemma insertBy_insort:
  "sortables s x \<noteq> None \<Longrightarrow> \<forall>y\<in>set ys. sortables s y \<noteq> None
   \<Longrightarrow> insertBy (sortByZIndex s) x ys = Inr (insort_key (zOf s) x ys)"
  by (induction ys) (auto simp: sortByZIndex_def getSortable_def andThen_def zOf_def)

lemma array_sort_sort_key:
  "\<forall>y\<in>set xs. sortables s y \<noteq> None
   \<Longrightarrow> array_sort (sortByZIndex s) xs = Inr (sort_key (zOf s) xs)"
  by (induction xs) (auto simp: andThen_def insertBy_insort)

lemma insort_key_map: "insort_key f (g x) (map g xs) = map g (insort_key (\<lambda>t. f (g t)) x xs)"
  by (induction xs) auto

lemma sort_key_map: "sort_key f (map g xs) = map g (sort_key (\<lambda>t. f (g t)) xs)"
  by (induction xs) (auto simp: insort_key_map)

lemma height_child: "u \<in> set ts \<Longrightarrow> height u \<le> foldr (\<lambda>t h. max (height t) h) ts 0"
  by (induction ts) auto


lemma sortables_sortChildren [simp]: "sortables (sortChildren z L s) = sortables s"
  by (simp add: sortChildren_def)

lemma zOf_sortChildren [simp]: "zOf (sortChildren z L s) = zOf s"
  by (simp add: zOf_def fun_eq_iff)

lemma nodes_sortChildren_out [simp]: "x \<notin> L \<Longrightarrow> nodes (sortChildren z L s) x = nodes s x"
  by (simp add: sortChildren_def)

lemma getChildren_sortChildren_out [simp]:
  "x \<notin> L \<Longrightarrow> getChildren x (sortChildren z L s) = getChildren x s"
  by (simp add: getChildren_def)

lemma getChildren_sortChildren_in:
  "x \<in> L \<Longrightarrow> getChildren x (sortChildren z L s) = sort_key z (getChildren x s)"
  by (cases "nodes s x") (simp_all add: getChildren_def sortChildren_def)

lemma sortChildren_empty [simp]: "sortChildren z {} s = s"
  by (simp add: sortChildren_def)

lemma sortChildren_union:
  "L1 \<inter> L2 = {} \<Longrightarrow> sortChildren z L2 (sortChildren z L1 s) = sortChildren z (L1 \<union> L2) s"
  by (rule Store.equality) (auto simp: sortChildren_def fun_eq_iff)

lemma sortChildren_leaf:
  "nodes s e = Some n \<Longrightarrow> children n = [] \<Longrightarrow> sortChildren z {e} s = s"
proof -
  assume a: "nodes s e = Some n" "children n = []"
  then have "n\<lparr>children := sort_key z (children n)\<rparr> = n" by simp
  with a have "(\<lambda>x. if x \<in> {e}
                       then map_option (\<lambda>n. n\<lparr>children := sort_key z (children n)\<rparr>) (nodes s x)
                       else nodes s x) = nodes s"
    by (auto simp: fun_eq_iff)
  then show ?thesis by (simp add: sortChildren_def)
qed

lemma sortChildren_single:
  "nodes s e = Some n \<Longrightarrow> putNode s e (n\<lparr>children := sort_key z (children n)\<rparr>) = sortChildren z {e} s"
  by (rule Store.equality) (auto simp: putNode_def sortChildren_def fun_eq_iff)

lemma represents_cong:
  "\<forall>x\<in>set (labels t). nodes s' x = nodes s x \<Longrightarrow> represents s' t = represents s t"
proof (induction t)
  case (Node e ts)
  have "list_all (represents s') ts = list_all (represents s) ts"
    unfolding list_all_iff using Node by (auto)
  with Node.prems show ?case by simp
qed

lemma represents_sortChildren_out:
  "set (labels t) \<inter> L = {} \<Longrightarrow> represents (sortChildren z L s) t = represents s t"
  by (rule represents_cong) (auto simp: sortChildren_def)

lemma nth_of_drop: "drop k xs = y # ys \<Longrightarrow> k < length xs \<and> xs ! k = y"
  by (metis Cons_nth_drop_Suc drop_eq_Nil leI list.distinct(1) list.inject nth_via_drop)

lemma drop_Suc_of_drop: "drop k xs = y # ys \<Longrightarrow> drop (Suc k) xs = ys"
  by (metis drop_Suc list.sel(3) tl_drop)

lemma forEach_flatten:
  assumes step: "\<And>u s r. u \<in> set us \<Longrightarrow> represents s u
      \<Longrightarrow> \<forall>x\<in>set (labels u). sortables s x \<noteq> None
      \<Longrightarrow> flattenEntity f (s, r) (tree_root u)
          = Inr (sortChildren (zOf s) (set (labels u)) s, r @ sorted_preorder (zOf s) u)"
  shows "distinct (concat (map labels us)) \<Longrightarrow> e \<notin> set (concat (map labels us))
    \<Longrightarrow> list_all (represents s) us
    \<Longrightarrow> \<forall>x\<in>set (concat (map labels us)). sortables s x \<noteq> None
    \<Longrightarrow> drop k (getChildren e s) = map tree_root us
    \<Longrightarrow> forEach (length us) k (\<lambda>(s1, r1). getChildren e s1) (flattenEntity f) (s, r)
        = Inr (sortChildren (zOf s) (set (concat (map labels us))) s,
               r @ concat (map (sorted_preorder (zOf s)) us))"
  using step
proof (induction us arbitrary: k s r)
  case Nil
  then show ?case by simp
next
  case (Cons u us)
  let ?s' = "sortChildren (zOf s) (set (labels u)) s"
  from Cons.prems(5) have k: "k < length (getChildren e s)" "getChildren e s ! k = tree_root u"
    and d: "drop (Suc k) (getChildren e s) = map tree_root us"
    using nth_of_drop[of k "getChildren e s" "tree_root u" "map tree_root us"]
      drop_Suc_of_drop[of k "getChildren e s" "tree_root u" "map tree_root us"] by auto
  from Cons.prems have disj: "set (labels u) \<inter> set (concat (map labels us)) = {}"
    and eu: "e \<notin> set (labels u)" by auto
  have first: "flattenEntity f (s, r) (tree_root u) = Inr (?s', r @ sorted_preorder (zOf s) u)"
    using Cons.prems by (intro Cons.prems(6)) auto
  have rep: "list_all (represents ?s') us"
    unfolding list_all_iff
  proof
    fix x assume x: "x \<in> set us"
    with disj have "set (labels x) \<inter> set (labels u) = {}" by auto
    with Cons.prems(3) x show "represents ?s' x"
      by (simp add: represents_sortChildren_out list_all_iff)
  qed
  have rest: "forEach (length us) (Suc k) (\<lambda>(s1, r1). getChildren e s1) (flattenEntity f)
        (?s', r @ sorted_preorder (zOf s) u)
        = Inr (sortChildren (zOf ?s') (set (concat (map labels us))) ?s',
               (r @ sorted_preorder (zOf s) u) @ concat (map (sorted_preorder (zOf ?s')) us))"
    using Cons.prems eu d rep
    by (intro Cons.IH) auto
  show ?case
    using k first rest disj
    by (simp add: andThen_def sortChildren_union)
qed


lemma mset_concat_map_cong:
  "mset xs = mset ys \<Longrightarrow> mset (concat (map f xs)) = mset (concat (map f ys))"
proof -
  assume a: "mset xs = mset ys"
  have "mset (concat (map f zs)) = sum_mset (image_mset (\<lambda>x. mset (f x)) (mset zs))" for zs
    by (induction zs) simp_all
  with a show ?thesis by simp
qed

lemma distinct_concat_sort_key:
  "distinct (concat (map f xs)) \<Longrightarrow> distinct (concat (map f (sort_key k xs)))"
  using mset_concat_map_cong[of "sort_key k xs" xs f] mset_eq_imp_distinct_iff
  by (metis mset_sort)

lemma distinct_concat_member:
  "distinct (concat (map f xs)) \<Longrightarrow> x \<in> set xs \<Longrightarrow> distinct (f x)"
  by (induction xs) auto

lemma flattenEntity_tree:
  "represents s t \<Longrightarrow> distinct (labels t) \<Longrightarrow> \<forall>x\<in>set (labels t). sortables s x \<noteq> None
   \<Longrightarrow> height t \<le> fuel
   \<Longrightarrow> flattenEntity fuel (s, r) (tree_root t)
       = Inr (sortChildren (zOf s) (set (labels t)) s, r @ sorted_preorder (zOf s) t)"
proof (induction t arbitrary: s r fuel)
  case (Node e ts)
  from Node.prems(4) obtain f where fuel: "fuel = Suc f"
    and hf: "foldr (\<lambda>t h. max (height t) h) ts 0 \<le> f"
    by (cases fuel) auto
  from Node.prems(1) obtain n where n: "nodes s e = Some n" and cn: "children n = map tree_root ts"
    and reps: "list_all (represents s) ts"
    by (auto split: option.splits)
  show ?case
  proof (cases "ts = []")
    case True
    with n cn fuel show ?thesis
      by (simp add: getNode_def andThen_def sortChildren_leaf[OF n])
  next
    case False
    let ?z = "zOf s"
    let ?ts' = "sort_key (\<lambda>t. ?z (tree_root t)) ts"
    let ?s1 = "sortChildren ?z {e} s"
    have roots: "tree_root u \<in> set (labels u)" for u by (cases u) simp
    have srt: "array_sort (sortByZIndex s) (children n) = Inr (map tree_root ?ts')"
      using Node.prems(3) roots unfolding cn
      by (subst array_sort_sort_key) (auto simp: sort_key_map)
    have put: "putNode s e (n\<lparr>children := map tree_root ?ts'\<rparr>) = ?s1"
      using sortChildren_single[OF n, of ?z] by (simp add: cn sort_key_map)
    have step: "flattenEntity f (s', r') (tree_root u)
          = Inr (sortChildren (zOf s') (set (labels u)) s', r' @ sorted_preorder (zOf s') u)"
      if "u \<in> set ?ts'" "represents s' u" "\<forall>x\<in>set (labels u). sortables s' x \<noteq> None" for u s' r'
    proof -
      from that(1) have u: "u \<in> set ts" by simp
      from Node.prems(2) have "distinct (labels u)"
        using distinct_concat_member[of labels ts u] u by simp
      moreover from height_child[OF u] hf have "height u \<le> f" by simp
      ultimately show ?thesis using that(2,3) by (intro Node.IH[OF u])
    qed
    have d1: "distinct (concat (map labels ?ts'))"
      using Node.prems(2) by (intro distinct_concat_sort_key) simp
    have e1: "e \<notin> set (concat (map labels ?ts'))"
      using Node.prems(2) by simp
    have r1: "list_all (represents ?s1) ?ts'"
      unfolding list_all_iff
    proof
      fix u assume "u \<in> set ?ts'"
      then have u: "u \<in> set ts" by simp
      with Node.prems(2) have "set (labels u) \<inter> {e} = {}" by auto
      with reps u show "represents ?s1 u"
        by (simp add: represents_sortChildren_out list_all_iff)
    qed
    have so1: "\<forall>x\<in>set (concat (map labels ?ts')). sortables ?s1 x \<noteq> None"
      using Node.prems(3) by simp
    have dr: "drop 0 (getChildren e ?s1) = map tree_root ?ts'"
      using n cn by (simp add: getChildren_def sortChildren_def sort_key_map)
    have loop: "forEach (length ?ts') 0 (\<lambda>(s1, r1). getChildren e s1) (flattenEntity f) (?s1, r @ [e])
        = Inr (sortChildren (zOf ?s1) (set (concat (map labels ?ts'))) ?s1,
               (r @ [e]) @ concat (map (sorted_preorder (zOf ?s1)) ?ts'))"
      using step by (intro forEach_flatten[OF _ d1 e1 r1 so1 dr]) auto
    have fin: "sortChildren ?z (set (concat (map labels ?ts'))) ?s1
               = sortChildren ?z (set (labels (Node e ts))) s"
      using e1 by (subst sortChildren_union) auto
    from False n cn fuel srt put loop fin show ?thesis
      by (simp add: getNode_def andThen_def)
  qed
qed

section \<open>The sorted list\<close>

text \<open>
  The order of siblings in \<open>sorted_preorder\<close>: ascending in the z-index, and the
  siblings of one z-index in the order they have in the tree, that is, in the children
  array the tree was read from.
\<close>

lemma sorted_preorder_siblings_ascending:
  "sorted (map (\<lambda>t. z (tree_root t)) (sort_key (\<lambda>t. z (tree_root t)) ts))"
  by (rule sorted_sort_key)

lemma sorted_preorder_siblings_stable:
  "filter (\<lambda>t. z (tree_root t) = k) (sort_key (\<lambda>t. z (tree_root t)) ts)
   = filter (\<lambda>t. z (tree_root t) = k) ts"
  by (rule sort_key_stable)

text \<open>
  Claim C8 says that siblings of equal z-index keep their relative insertion order in
  the list \<open>sort\<close> returns. Counterexample: entity 1 (z-index 1) and then entity 2
  (z-index 0) are attached to entity 0, and \<open>sort\<close> returns [0, 2, 1], sorting the
  children array of entity 0 in place. The z-index of entity 1 is then set to 0 and
  \<open>sort\<close> is forced: both siblings have z-index 0, entity 1 was inserted first, and the
  list is again [0, 2, 1]. The result lists the children array after the two \<open>attach\<close>
  calls, the first list, the two z-indices at the second call and the second list.
\<close>

theorem sort_graph_equal_z_not_insertion_order:
  "andThen (attach fuel5 (addGroup 2 0 (addGroup 1 1 (addGroup 0 0 emptyStore))) 1 0 None) (\<lambda>s.
   andThen (attach fuel5 s 2 0 None) (\<lambda>s.
   andThen (sort_graph fuel5 s 0 False) (\<lambda>(s1, first).
   andThen (getSortable s1 1) (\<lambda>sortable.
   andThen (sort_graph fuel5 (putSortable s1 1 (sortable\<lparr>zIndex := 0, dirty := True\<rparr>)) 0 True)
     (\<lambda>(s2, second). Inr (getChildren 0 s, first, zOf s2 1, zOf s2 2, second))))))
   = Inr ([1, 2], [0, 2, 1], 0, 0, [0, 2, 1])"
  by (simp add: store_defs numeric_defs service_defs sort_graph_def sortByZIndex_def zOf_def)

text \<open>
  Claim C8 as amended: for a store that holds a scene tree \<open>t\<close> (every entity of it once,
  each with a sortable) and enough fuel for its height, \<open>sort(node, force)\<close> on the root
  returns: when the sortable is dirty or \<open>force\<close> is set, the pre-order list of the tree
  with the siblings of every level in ascending z-index order, siblings of equal z-index
  in the relative order they have in the children array when \<open>sort\<close> runs, which is also
  stored in the sortable's cache together with a cleared dirty flag; otherwise the
  cached list, with the store untouched.
\<close>

theorem sort_graph_sorted_preorder:
  assumes "represents s t" and "distinct (labels t)"
    and "\<forall>x\<in>set (labels t). sortables s x \<noteq> None" and "height t \<le> fuel"
    and "sortables s (tree_root t) = Some sb"
  shows "sort_graph fuel s (tree_root t) force =
     (if dirty sb \<or> force
      then Inr (putSortable (sortChildren (zOf s) (set (labels t)) s) (tree_root t)
                  (sb\<lparr>sorted_cache := sorted_preorder (zOf s) t, dirty := False\<rparr>),
                sorted_preorder (zOf s) t)
      else Inr (s, sorted_cache sb))"
  using assms flattenEntity_tree[OF assms(1-4), of "[]"]
  by (simp add: sort_graph_def getSortable_def andThen_def)

theorem sort_graph_sorted_preorder_witness:
  "map_sum id snd (sort_graph fuel5 zScene 0 False) = Inr [0, 2, 1, 3]"
  using sort_graph_sorted_preorder[of zScene zTree fuel5 "newSortable 0" False]
  by (simp add: zScene_def zTree_def store_defs zOf_def)

section \<open>The children arrays after sorting\<close>

text \<open>
  Claim C10: when \<open>sort\<close> recomputes (the sortable is dirty or \<open>force\<close> is set), the
  children array of the node and of every descendant is afterwards the array it was
  before, sorted by ascending z-index: the insertion order held by the arrays is
  overwritten.
\<close>

theorem sort_graph_reorders_children:
  assumes "represents s t" and "distinct (labels t)"
    and "\<forall>x\<in>set (labels t). sortables s x \<noteq> None" and "height t \<le> fuel"
    and "sortables s (tree_root t) = Some sb" and "dirty sb \<or> force"
  shows "\<exists>s' r. sort_graph fuel s (tree_root t) force = Inr (s', r)
           \<and> (\<forall>x\<in>set (labels t). getChildren x s' = sort_key (zOf s) (getChildren x s))"
  using assms flattenEntity_tree[OF assms(1-4), of "[]"]
  by (simp add: sort_graph_def getSortable_def andThen_def putSortable_def getChildren_def sortChildren_def
      split: option.splits)

theorem sort_graph_reorders_children_witness:
  "getChildren 0 zScene = [1, 2, 3] \<and>
   (\<exists>s' r. sort_graph fuel5 zScene 0 False = Inr (s', r) \<and> getChildren 0 s' = [2, 1, 3])"
proof -
  have h1: "represents zScene zTree" and h2: "distinct (labels zTree)"
    and h3: "\<forall>x\<in>set (labels zTree). sortables zScene x \<noteq> None"
    and h4: "height zTree \<le> fuel5"
    and h5: "sortables zScene (tree_root zTree) = Some (newSortable 0)"
    and h6: "dirty (newSortable 0) \<or> False"
    by (simp_all add: zScene_def zTree_def store_defs)
  from sort_graph_reorders_children[OF h1 h2 h3 h4 h5 h6]
  obtain s' r where a: "sort_graph fuel5 zScene 0 False = Inr (s', r)"
    and b: "\<forall>x\<in>set (labels zTree). getChildren x s' = sort_key (zOf zScene) (getChildren x zScene)"
    by (auto simp: zTree_def)
  from b have "getChildren 0 s' = sort_key (zOf zScene) (getChildren 0 zScene)"
    by (simp add: zTree_def)
  also have "\<dots> = [2, 1, 3]"
    by (simp add: zScene_def store_defs zOf_def)
  finally have c: "getChildren 0 s' = [2, 1, 3]" .
  have "getChildren 0 zScene = [1, 2, 3]"
    by (simp add: zScene_def store_defs)
  with a c show ?thesis by blast
qed

text \<open>
  \<open>visit\<close> reads these arrays: in the scene with z-indices 5, 3 and 5 it meets the
  children in insertion order before \<open>sort\<close> and in z-index order after it.
\<close>

lemma visit_before_sort:
  "visit fuel5 zScene 0 (\<lambda>e. False) [] = Inr [0, 1, 2, 3]"
  by (simp add: zScene_def store_defs)

lemma visit_after_sort:
  "andThen (sort_graph fuel5 zScene 0 False) (\<lambda>(s, r). visit fuel5 s 0 (\<lambda>e. False) [])
   = Inr [0, 2, 1, 3]"
  by (simp add: zScene_def store_defs sort_graph_def sortByZIndex_def)

end
